theory Spec2Isabelle
  imports Complex_Main
begin

section \<open>Tables as the two programs use them\<close>

text \<open>
  Both programs handle their data as pandas tables. A cell holds a string, a number or the
  missing value; a table is its column labels and its rows, every row aligned with the
  labels. A row shorter than the label list reads as missing in its absent positions.
\<close>

datatype cell = Str string | Num real | NaN

record dataframe =
  columns :: "string list"
  rows :: "cell list list"

datatype error =
    KeyError string
  | TypeError
  | AttributeError
  | FileNotFoundError string
  | ReadError string
  | LibraryError string

text \<open>\<^verbatim>\<open>pd.DataFrame()\<close>: no columns, no rows.\<close>

definition DataFrame :: dataframe where
  "DataFrame = \<lparr>columns = [], rows = []\<rparr>"

text \<open>\<^verbatim>\<open>df.empty\<close>: one of the two axes has length zero.\<close>

definition df_empty :: "dataframe \<Rightarrow> bool" where
  "df_empty df = (columns df = [] \<or> rows df = [])"

fun index_of :: "string \<Rightarrow> string list \<Rightarrow> nat option" where
  "index_of c [] = None"
| "index_of c (d # ds) = (if c = d then Some 0 else map_option Suc (index_of c ds))"

definition cell_at :: "cell list \<Rightarrow> nat \<Rightarrow> cell" where
  "cell_at r i = (if i < length r then r ! i else NaN)"

text \<open>\<^verbatim>\<open>df[c]\<close> for a single label: the column, or KeyError.\<close>

definition getitem :: "dataframe \<Rightarrow> string \<Rightarrow> error + cell list" where
  "getitem df c =
     (case index_of c (columns df) of
        None \<Rightarrow> Inl (KeyError c)
      | Some i \<Rightarrow> Inr (map (\<lambda>r. cell_at r i) (rows df)))"

text \<open>
  Elementwise \<^verbatim>\<open>==\<close> of a column with a scalar: the missing value equals nothing,
  not even itself.
\<close>

definition cell_eq :: "cell \<Rightarrow> cell \<Rightarrow> bool" where
  "cell_eq x v = (x \<noteq> NaN \<and> v \<noteq> NaN \<and> x = v)"

definition series_eq :: "cell list \<Rightarrow> cell \<Rightarrow> bool list" where
  "series_eq s v = map (\<lambda>x. cell_eq x v) s"

text \<open>\<^verbatim>\<open>df[mask]\<close>: the rows at which the mask is true, in their order.\<close>

definition boolean_index :: "dataframe \<Rightarrow> bool list \<Rightarrow> dataframe" where
  "boolean_index df keep = df\<lparr>rows := map fst (filter snd (zip (rows df) keep))\<rparr>"

definition head :: "nat \<Rightarrow> dataframe \<Rightarrow> dataframe" where
  "head n df = df\<lparr>rows := take n (rows df)\<rparr>"

text \<open>\<^verbatim>\<open>row[c]\<close> on a row handed out by \<^verbatim>\<open>iterrows\<close>.\<close>

definition row_get :: "string list \<Rightarrow> cell list \<Rightarrow> string \<Rightarrow> error + cell" where
  "row_get cols r c =
     (case index_of c cols of
        None \<Rightarrow> Inl (KeyError c)
      | Some i \<Rightarrow> Inr (cell_at r i))"

section \<open>The dashboard\<close>

subsection \<open>Data loading\<close>

text \<open>
  The files the page reads. A file either parses as a table or makes
  \<^verbatim>\<open>pd.read_csv\<close> raise (an empty file, a malformed one). The loader's accesses to
  the file system are recorded in the order they happen.
\<close>

datatype disk_file = Table dataframe | Unreadable string

type_synonym filesystem = "string \<rightharpoonup> disk_file"

datatype io = Exists string | ReadCsv string | StError error

definition FINAL_PATH :: string where
  "FINAL_PATH = ''final_ranked_candidates.csv''"

definition PAPERS_PATH :: string where
  "PAPERS_PATH = ''phase3/outputs/phase3_papers.csv''"

definition path_exists :: "filesystem \<Rightarrow> string \<Rightarrow> bool" where
  "path_exists fs p = (fs p \<noteq> None)"

definition read_csv :: "filesystem \<Rightarrow> string \<Rightarrow> error + dataframe" where
  "read_csv fs p =
     (case fs p of
        None \<Rightarrow> Inl (FileNotFoundError p)
      | Some (Table df) \<Rightarrow> Inr df
      | Some (Unreadable msg) \<Rightarrow> Inl (ReadError msg))"

text \<open>
  The body of \<^verbatim>\<open>load_data\<close>: all of it sits in \<^verbatim>\<open>try\<close>, and the handler reports
  the exception with \<^verbatim>\<open>st.error\<close> and returns two empty tables.
\<close>

definition load_data_body :: "filesystem \<Rightarrow> (dataframe \<times> dataframe) \<times> io list" where
  "load_data_body fs =
     (if \<not> path_exists fs FINAL_PATH
      then ((DataFrame, DataFrame), [Exists FINAL_PATH])
      else
        (case read_csv fs FINAL_PATH of
           Inl e \<Rightarrow>
             ((DataFrame, DataFrame), [Exists FINAL_PATH, ReadCsv FINAL_PATH, StError e])
         | Inr final_df \<Rightarrow>
             if path_exists fs PAPERS_PATH
             then
               (case read_csv fs PAPERS_PATH of
                  Inl e \<Rightarrow>
                    ((DataFrame, DataFrame),
                     [Exists FINAL_PATH, ReadCsv FINAL_PATH,
                      Exists PAPERS_PATH, ReadCsv PAPERS_PATH, StError e])
                | Inr papers_df \<Rightarrow>
                    ((final_df, papers_df),
                     [Exists FINAL_PATH, ReadCsv FINAL_PATH,
                      Exists PAPERS_PATH, ReadCsv PAPERS_PATH]))
             else
               ((final_df, DataFrame),
                [Exists FINAL_PATH, ReadCsv FINAL_PATH, Exists PAPERS_PATH])))"

text \<open>
  \<^verbatim>\<open>load_data\<close> is decorated with \<^verbatim>\<open>@st.cache_data\<close>, without arguments: the
  function takes no parameter, so the cache has at most one entry, and it never expires.
  A call that finds the entry runs nothing of the body, returns the stored tables and
  replays the messages recorded when the entry was made; a call that finds the cache
  empty runs the body and stores its result. The cache is passed through.
\<close>

type_synonym cache = "((dataframe \<times> dataframe) \<times> error list) option"

fun recorded_messages :: "io list \<Rightarrow> error list" where
  "recorded_messages [] = []"
| "recorded_messages (StError e # xs) = e # recorded_messages xs"
| "recorded_messages (Exists p # xs) = recorded_messages xs"
| "recorded_messages (ReadCsv p # xs) = recorded_messages xs"

definition load_data ::
  "cache \<Rightarrow> filesystem \<Rightarrow> ((dataframe \<times> dataframe) \<times> io list) \<times> cache" where
  "load_data c fs =
     (case c of
        Some (r, msgs) \<Rightarrow> ((r, map StError msgs), c)
      | None \<Rightarrow>
          (case load_data_body fs of
             (r, tr) \<Rightarrow> ((r, tr), Some (r, recorded_messages tr))))"

subsection \<open>Widgets\<close>

text \<open>
  What the page puts on screen is a list of widgets. An evidence card carries the values
  substituted into its markup: border colour, title, year, model, direction, outcomes.
  Pictographs of the message texts are left out.
\<close>

datatype widget =
    Info string
  | Warning string
  | Metric string nat
  | EvidenceCard string cell cell cell string cell

subsection \<open>Data status check\<close>

text \<open>
  The flag says whether the script stops there (\<^verbatim>\<open>st.stop()\<close>).
\<close>

definition data_status :: "dataframe \<Rightarrow> widget list \<times> bool" where
  "data_status final_df =
     (if df_empty final_df
      then ([Metric ''Candidates'' 0,
             Warning (''Data Pipeline Output Not Found: `'' @ FINAL_PATH @ ''`'')], True)
      else ([Metric ''Candidates Screened'' (length (rows final_df))], False))"

subsection \<open>Minimum-confidence filter\<close>

text \<open>
  Elementwise \<^verbatim>\<open>>=\<close> of a column with a float: a string in the column raises
  TypeError, the missing value compares false.
\<close>

fun series_ge :: "cell list \<Rightarrow> real \<Rightarrow> error + bool list" where
  "series_ge [] t = Inr []"
| "series_ge (Str s # xs) t = Inl TypeError"
| "series_ge (Num v # xs) t =
     (case series_ge xs t of Inl e \<Rightarrow> Inl e | Inr bs \<Rightarrow> Inr ((v \<ge> t) # bs))"
| "series_ge (NaN # xs) t =
     (case series_ge xs t of Inl e \<Rightarrow> Inl e | Inr bs \<Rightarrow> Inr (False # bs))"

text \<open>\<^verbatim>\<open>final_df[final_df['confidence'] >= min_confidence]\<close>\<close>

definition filtered_df :: "dataframe \<Rightarrow> real \<Rightarrow> error + dataframe" where
  "filtered_df final_df min_confidence =
     (case getitem final_df ''confidence'' of
        Inl e \<Rightarrow> Inl e
      | Inr s \<Rightarrow>
          (case series_ge s min_confidence of
             Inl e \<Rightarrow> Inl e
           | Inr keep \<Rightarrow> Inr (boolean_index final_df keep)))"

subsection \<open>Evidence stream of the candidate inspector\<close>

text \<open>\<^verbatim>\<open>papers_df[papers_df["drug"] == selected_drug]\<close>\<close>

definition drug_papers :: "dataframe \<Rightarrow> cell \<Rightarrow> error + dataframe" where
  "drug_papers papers_df selected_drug =
     (case getitem papers_df ''drug'' of
        Inl e \<Rightarrow> Inl e
      | Inr s \<Rightarrow> Inr (boolean_index papers_df (series_eq s selected_drug)))"

text \<open>\<^verbatim>\<open>.upper()\<close> exists on strings only; its effect on the letters is markup.\<close>

definition upper :: "cell \<Rightarrow> error + string" where
  "upper d = (case d of Str s \<Rightarrow> Inr s | Num v \<Rightarrow> Inl AttributeError | NaN \<Rightarrow> Inl AttributeError)"

text \<open>One card: the lookups happen in the order of the source text.\<close>

definition evidence_card :: "string list \<Rightarrow> cell list \<Rightarrow> error + widget" where
  "evidence_card cols r =
     (case row_get cols r ''direction'' of Inl e \<Rightarrow> Inl e | Inr d \<Rightarrow>
     (let direction_color = (if cell_eq d (Str ''positive'') then ''#00E5FF'' else ''#FF5252'') in
     (case row_get cols r ''title'' of Inl e \<Rightarrow> Inl e | Inr t \<Rightarrow>
     (case row_get cols r ''pub_year'' of Inl e \<Rightarrow> Inl e | Inr y \<Rightarrow>
     (case row_get cols r ''model'' of Inl e \<Rightarrow> Inl e | Inr m \<Rightarrow>
     (case upper d of Inl e \<Rightarrow> Inl e | Inr ds \<Rightarrow>
     (case row_get cols r ''outcomes'' of Inl e \<Rightarrow> Inl e | Inr out \<Rightarrow>
        Inr (EvidenceCard direction_color t y m ds out))))))))"

fun evidence_cards :: "string list \<Rightarrow> cell list list \<Rightarrow> error + widget list" where
  "evidence_cards cols [] = Inr []"
| "evidence_cards cols (r # rs) =
     (case evidence_card cols r of
        Inl e \<Rightarrow> Inl e
      | Inr w \<Rightarrow> (case evidence_cards cols rs of Inl e \<Rightarrow> Inl e | Inr ws \<Rightarrow> Inr (w # ws)))"

definition evidence_stream :: "dataframe \<Rightarrow> cell \<Rightarrow> error + widget list" where
  "evidence_stream papers_df selected_drug =
     (case drug_papers papers_df selected_drug of
        Inl e \<Rightarrow> Inl e
      | Inr dp \<Rightarrow>
          if df_empty dp
          then Inr [Info ''No specific literature entries found in the indexed window.'']
          else evidence_cards (columns dp) (rows (head 5 dp)))"

section \<open>Phase 1: permeability classifier and candidate extraction\<close>

text \<open>
  The learning library is a parameter of the run: its four entry points either raise or
  return. The split receives the test fraction, the seed and the stratification vector;
  the forest its size and seed.
\<close>

record 'm sklearn =
  train_test_split ::
    "cell list list \<Rightarrow> cell list \<Rightarrow> real \<Rightarrow> nat \<Rightarrow> cell list
       \<Rightarrow> error + (cell list list \<times> cell list list \<times> cell list \<times> cell list)"
  fit :: "nat \<Rightarrow> nat \<Rightarrow> cell list list \<Rightarrow> cell list \<Rightarrow> error + 'm"
  predict :: "'m \<Rightarrow> cell list list \<Rightarrow> error + cell list"
  report :: "cell list \<Rightarrow> cell list \<Rightarrow> error + unit"

text \<open>The output directory: the model artifact and the candidate CSV.\<close>

datatype 'm artifact = Pickle 'm | CsvFile dataframe

type_synonym 'm outputs = "string \<rightharpoonup> 'm artifact"

definition MODEL_PATH :: string where
  "MODEL_PATH = ''phase1/outputs/phase1_model.pkl''"

definition CSV_PATH :: string where
  "CSV_PATH = ''phase1/outputs/bbb_positive_drugs_v2.csv''"

definition metadata_columns :: "string list" where
  "metadata_columns =
     [''compound_name'', ''IUPAC_name'', ''SMILES'', ''BBB+/BBB-'',
      ''Inchi'', ''reference'', ''group'', ''comments'']"

text \<open>
  \<^verbatim>\<open>df.drop(columns=cs)\<close>: KeyError when a label of \<open>cs\<close> is not a column, otherwise the
  table without those columns.
\<close>

definition drop_columns :: "dataframe \<Rightarrow> string list \<Rightarrow> error + dataframe" where
  "drop_columns df cs =
     (case filter (\<lambda>c. c \<notin> set (columns df)) cs of
        m # ms \<Rightarrow> Inl (KeyError m)
      | [] \<Rightarrow>
          (let kept = filter (\<lambda>i. columns df ! i \<notin> set cs) [0..<length (columns df)]
           in Inr \<lparr>columns = map (\<lambda>i. columns df ! i) kept,
                   rows = map (\<lambda>r. map (cell_at r) kept) (rows df)\<rparr>))"

text \<open>
  \<^verbatim>\<open>.map({"BBB+": 1, "BBB-": 0})\<close>: a value that is not a key of the dictionary becomes
  the missing value.
\<close>

definition label_code :: "cell \<Rightarrow> cell" where
  "label_code x =
     (if x = Str ''BBB+'' then Num 1 else if x = Str ''BBB-'' then Num 0 else NaN)"

text \<open>\<^verbatim>\<open>df[[c1, c2, ...]]\<close>: the named columns in the order asked for, or KeyError.\<close>

fun indices_of :: "string list \<Rightarrow> string list \<Rightarrow> error + nat list" where
  "indices_of cols [] = Inr []"
| "indices_of cols (c # cs) =
     (case index_of c cols of
        None \<Rightarrow> Inl (KeyError c)
      | Some i \<Rightarrow> (case indices_of cols cs of Inl e \<Rightarrow> Inl e | Inr js \<Rightarrow> Inr (i # js)))"

definition select_columns :: "dataframe \<Rightarrow> string list \<Rightarrow> error + dataframe" where
  "select_columns df cs =
     (case indices_of (columns df) cs of
        Inl e \<Rightarrow> Inl e
      | Inr js \<Rightarrow> Inr \<lparr>columns = cs, rows = map (\<lambda>r. map (cell_at r) js) (rows df)\<rparr>)"

text \<open>
  Step 7 of \<^verbatim>\<open>main\<close>: the rows labelled \<^verbatim>\<open>BBB+\<close>, then their name and SMILES columns.
\<close>

definition extract_candidates :: "dataframe \<Rightarrow> error + dataframe" where
  "extract_candidates df_ext =
     (case getitem df_ext ''BBB+/BBB-'' of
        Inl e \<Rightarrow> Inl e
      | Inr lab \<Rightarrow>
          select_columns (boolean_index df_ext (series_eq lab (Str ''BBB+'')))
            [''compound_name'', ''SMILES''])"

text \<open>
  \<^verbatim>\<open>main\<close>, with the output directory passed through. The two writes are taken to
  succeed; \<^verbatim>\<open>to_csv(index=False)\<close> stores the table's header and rows. Console output is
  left out.
\<close>

definition main :: "'m sklearn \<Rightarrow> dataframe \<Rightarrow> 'm outputs \<Rightarrow> (error + unit) \<times> 'm outputs" where
  "main sk df_ext out =
     (case drop_columns df_ext metadata_columns of Inl e \<Rightarrow> (Inl e, out) | Inr X_df \<Rightarrow>
     (case getitem df_ext ''BBB+/BBB-'' of Inl e \<Rightarrow> (Inl e, out) | Inr lab \<Rightarrow>
     (let X_ext = rows X_df; y_ext = map label_code lab in
     (case train_test_split sk X_ext y_ext 0.2 42 y_ext of Inl e \<Rightarrow> (Inl e, out)
      | Inr (X_train, X_test, y_train, y_test) \<Rightarrow>
     (case fit sk 200 42 X_train y_train of Inl e \<Rightarrow> (Inl e, out) | Inr model \<Rightarrow>
     (case predict sk model X_test of Inl e \<Rightarrow> (Inl e, out) | Inr y_pred \<Rightarrow>
     (case report sk y_test y_pred of Inl e \<Rightarrow> (Inl e, out) | Inr u \<Rightarrow>
     (let out1 = out(MODEL_PATH \<mapsto> Pickle model) in
     (case extract_candidates df_ext of Inl e \<Rightarrow> (Inl e, out1) | Inr final_list \<Rightarrow>
        (Inr (), out1(CSV_PATH \<mapsto> CsvFile final_list)))))))))))"

section \<open>Example data\<close>

text \<open>
  An evidence table with six records of one drug, a differently capitalised namesake and
  another drug; a ranked table of two candidates; compound tables: one with both labels,
  one with every row labelled \<^verbatim>\<open>BBB+\<close>, one with every row labelled \<^verbatim>\<open>BBB+\<close>
  and without the descriptive columns, one with a label that is neither.
\<close>

definition papers_example :: dataframe where
  "papers_example =
     \<lparr>columns = [''drug'', ''title'', ''pub_year'', ''model'', ''direction'', ''outcomes''],
      rows =
        [[Str ''aspirin'', Str ''t1'', Num 2015, Str ''mouse'', Str ''positive'', Str ''o1''],
         [Str ''Aspirin'', Str ''t2'', Num 2016, Str ''rat'', Str ''negative'', Str ''o2''],
         [Str ''aspirin'', Str ''t3'', Num 2017, Str ''mouse'', Str ''neutral'', Str ''o3''],
         [Str ''donepezil'', Str ''t4'', Num 2018, Str ''human'', Str ''positive'', Str ''o4''],
         [Str ''aspirin'', Str ''t5'', Num 2019, Str ''cell'', Str ''negative'', Str ''o5''],
         [Str ''aspirin'', Str ''t6'', Num 2020, Str ''mouse'', Str ''positive'', Str ''o6''],
         [Str ''aspirin'', Str ''t7'', Num 2021, Str ''rat'', Str ''positive'', Str ''o7''],
         [Str ''aspirin'', Str ''t8'', Num 2022, Str ''rat'', Str ''negative'', Str ''o8'']]\<rparr>"

definition final_example :: dataframe where
  "final_example =
     \<lparr>columns = [''drug_name'', ''final_score'', ''phase2_score'', ''signed_score'',
                 ''n_papers'', ''confidence'', ''models'', ''net_positive''],
      rows =
        [[Str ''donepezil'', Num 1, Num 3, Num 2, Num 1, Num 88, Str ''human'', Num 1],
         [Str ''aspirin'', Num 0, Num 1, Num (- 1), Num 6, Num 12, Str ''mouse'', Num 0]]\<rparr>"



definition compounds_no_metadata :: dataframe where
  "compounds_no_metadata =
     \<lparr>columns = [''compound_name'', ''SMILES'', ''BBB+/BBB-'', ''MW''],
      rows =
        [[Str ''caffeine'', Str ''CN1C'', Str ''BBB+'', Num 194],
         [Str ''diazepam'', Str ''CN1C(=O)'', Str ''BBB+'', Num 284],
         [Str ''nicotine'', Str ''CN1CCC'', Str ''BBB+'', Num 162]]\<rparr>"

definition compounds_bad_label :: dataframe where
  "compounds_bad_label =
     \<lparr>columns = [''compound_name'', ''IUPAC_name'', ''SMILES'', ''BBB+/BBB-'', ''Inchi'',
                 ''reference'', ''group'', ''comments'', ''MW'', ''logP''],
      rows =
        [[Str ''caffeine'', Str ''i1'', Str ''CN1C'', Str ''BBB+'', Str ''x1'', Str ''R1'',
          Str ''A'', NaN, Num 194, Num 0],
         [Str ''atenolol'', Str ''i2'', Str ''CC(C)N'', Str ''unknown'', Str ''x2'', Str ''R2'',
          Str ''A'', NaN, Num 266, Num 1]]\<rparr>"

text \<open>
  A library instance for the examples: its split refuses a stratification vector that
  holds a missing value and otherwise hands every row to both sides; its model is the
  unit value. A second instance raises in every split.
\<close>

definition sklearn_example :: "unit sklearn" where
  "sklearn_example =
     \<lparr>train_test_split =
        (\<lambda>X y test_size random_state stratify.
           if NaN \<in> set stratify then Inl (LibraryError ''Input y contains NaN.'')
           else Inr (X, X, y, y)),
      fit = (\<lambda>n_estimators random_state X y. Inr ()),
      predict = (\<lambda>model X. Inr (map (\<lambda>r. Num 1) X)),
      report = (\<lambda>y_test y_pred. Inr ())\<rparr>"


text \<open>The first library without the refusal.\<close>

definition sklearn_lenient :: "unit sklearn" where
  "sklearn_lenient =
     sklearn_example\<lparr>train_test_split :=
        (\<lambda>X y test_size random_state stratify. Inr (X, X, y, y))\<rparr>"

section \<open>Facts about tables\<close>

lemma mask_filter: "map fst (filter snd (zip xs (map P xs))) = filter P xs"
  by (induction xs) simp_all

lemma mask_all: "map fst (filter snd (zip xs (map (\<lambda>_. True) xs))) = xs"
  using mask_filter [where P = "\<lambda>_. True" and xs = xs] by simp

lemma index_of_Some_mem: "index_of c cs = Some i \<Longrightarrow> cs \<noteq> []"
  by (cases cs) simp_all

lemma index_of_mem: "c \<in> set cs \<Longrightarrow> \<exists>i. index_of c cs = Some i"
  by (induction cs) auto

lemma cell_eq_Str: "cell_eq x (Str s) = (x = Str s)"
  by (auto simp: cell_eq_def)

lemma boolean_index_eq:
  "boolean_index df (series_eq (map (\<lambda>r. cell_at r i) (rows df)) v)
     = df\<lparr>rows := filter (\<lambda>r. cell_eq (cell_at r i) v) (rows df)\<rparr>"
proof -
  have "series_eq (map (\<lambda>r. cell_at r i) (rows df)) v
          = map (\<lambda>r. cell_eq (cell_at r i) v) (rows df)"
    by (simp add: series_eq_def)
  then show ?thesis
    by (simp add: boolean_index_def mask_filter)
qed

lemma drug_papers_rows:
  assumes "index_of ''drug'' (columns papers_df) = Some i"
  shows "drug_papers papers_df v
           = Inr (papers_df\<lparr>rows := filter (\<lambda>r. cell_eq (cell_at r i) v) (rows papers_df)\<rparr>)"
  using assms by (simp add: drug_papers_def getitem_def boolean_index_eq)

lemma series_ge_all:
  assumes "\<forall>r \<in> set rs. \<exists>v. cell_at r i = Num v \<and> t \<le> v"
  shows "series_ge (map (\<lambda>r. cell_at r i) rs) t = Inr (map (\<lambda>_. True) rs)"
  using assms by (induction rs) auto

lemma drop_columns_present:
  assumes "drop_columns df cs = Inr X" and "c \<in> set cs"
  shows "\<exists>i. index_of c (columns df) = Some i"
proof -
  have "filter (\<lambda>c. c \<notin> set (columns df)) cs = []"
    using assms(1) by (auto simp: drop_columns_def split: list.splits)
  then have "c \<in> set (columns df)"
    using assms(2) by (auto simp: filter_empty_conv)
  then show ?thesis by (rule index_of_mem)
qed

lemma extract_candidates_rows:
  assumes "index_of ''compound_name'' (columns df_ext) = Some i"
    and "index_of ''SMILES'' (columns df_ext) = Some j"
    and "index_of ''BBB+/BBB-'' (columns df_ext) = Some k"
  shows "extract_candidates df_ext
           = Inr \<lparr>columns = [''compound_name'', ''SMILES''],
                  rows = map (\<lambda>r. [cell_at r i, cell_at r j])
                           (filter (\<lambda>r. cell_at r k = Str ''BBB+'') (rows df_ext))\<rparr>"
  using assms
  by (simp add: extract_candidates_def getitem_def boolean_index_eq select_columns_def
        cell_eq_Str)

text \<open>
  Once the metadata columns have been dropped without a KeyError, the three columns that
  step 7 reads are known to exist, so step 7 cannot raise.
\<close>

lemma extract_after_drop:
  assumes "drop_columns df_ext metadata_columns = Inr X"
  shows "\<exists>d. extract_candidates df_ext = Inr d"
proof -
  obtain i where i: "index_of ''compound_name'' (columns df_ext) = Some i"
    using drop_columns_present [OF assms, of "''compound_name''"]
    by (auto simp: metadata_columns_def)
  obtain j where j: "index_of ''SMILES'' (columns df_ext) = Some j"
    using drop_columns_present [OF assms, of "''SMILES''"]
    by (auto simp: metadata_columns_def)
  obtain k where k: "index_of ''BBB+/BBB-'' (columns df_ext) = Some k"
    using drop_columns_present [OF assms, of "''BBB+/BBB-''"]
    by (auto simp: metadata_columns_def)
  show ?thesis
    using extract_candidates_rows [OF i j k] by blast
qed

lemmas card_eval = evidence_card_def row_get_def cell_at_def cell_eq_def upper_def

section \<open>The evidence stream\<close>

text \<open>
  C5. For an evidence table with a \<^verbatim>\<open>drug\<close> column and any queried name, the lookup
  keeps exactly the records whose \<^verbatim>\<open>drug\<close> cell is that very string, in the order in
  which the table stores them, and the inspector renders the first five of them (the
  empty-state notice when there is none).
\<close>

theorem evidence_lookup_exact:
  assumes "index_of ''drug'' (columns papers_df) = Some i"
  shows "drug_papers papers_df (Str name)
           = Inr (papers_df\<lparr>rows := filter (\<lambda>r. cell_at r i = Str name) (rows papers_df)\<rparr>)
       \<and> evidence_stream papers_df (Str name)
           = (if filter (\<lambda>r. cell_at r i = Str name) (rows papers_df) = []
              then Inr [Info ''No specific literature entries found in the indexed window.'']
              else evidence_cards (columns papers_df)
                     (take 5 (filter (\<lambda>r. cell_at r i = Str name) (rows papers_df))))"
proof -
  have cols: "columns papers_df \<noteq> []"
    using assms by (rule index_of_Some_mem)
  have dp: "drug_papers papers_df (Str name)
              = Inr (papers_df\<lparr>rows := filter (\<lambda>r. cell_at r i = Str name) (rows papers_df)\<rparr>)"
    using drug_papers_rows [OF assms, of "Str name"] by (simp add: cell_eq_Str)
  show ?thesis
    using cols by (simp add: dp evidence_stream_def df_empty_def head_def)
qed

theorem evidence_lookup_exact_witness:
  "index_of ''drug'' (columns papers_example) = Some 0
   \<and> drug_papers papers_example (Str ''aspirin'')
       = Inr (papers_example\<lparr>rows :=
           [[Str ''aspirin'', Str ''t1'', Num 2015, Str ''mouse'', Str ''positive'', Str ''o1''],
            [Str ''aspirin'', Str ''t3'', Num 2017, Str ''mouse'', Str ''neutral'', Str ''o3''],
            [Str ''aspirin'', Str ''t5'', Num 2019, Str ''cell'', Str ''negative'', Str ''o5''],
            [Str ''aspirin'', Str ''t6'', Num 2020, Str ''mouse'', Str ''positive'', Str ''o6''],
            [Str ''aspirin'', Str ''t7'', Num 2021, Str ''rat'', Str ''positive'', Str ''o7''],
            [Str ''aspirin'', Str ''t8'', Num 2022, Str ''rat'', Str ''negative'', Str ''o8'']]\<rparr>)
   \<and> evidence_stream papers_example (Str ''aspirin'')
       = Inr [EvidenceCard ''#00E5FF'' (Str ''t1'') (Num 2015) (Str ''mouse'') ''positive'' (Str ''o1''),
              EvidenceCard ''#FF5252'' (Str ''t3'') (Num 2017) (Str ''mouse'') ''neutral'' (Str ''o3''),
              EvidenceCard ''#FF5252'' (Str ''t5'') (Num 2019) (Str ''cell'') ''negative'' (Str ''o5''),
              EvidenceCard ''#00E5FF'' (Str ''t6'') (Num 2020) (Str ''mouse'') ''positive'' (Str ''o6''),
              EvidenceCard ''#00E5FF'' (Str ''t7'') (Num 2021) (Str ''rat'') ''positive'' (Str ''o7'')]"
proof -
  have h: "index_of ''drug'' (columns papers_example) = Some 0"
    by (simp add: papers_example_def)
  show ?thesis
    using h evidence_lookup_exact [OF h, of "''aspirin''"]
    by (simp add: papers_example_def card_eval)
qed

text \<open>
  C7. For an evidence table with a \<^verbatim>\<open>drug\<close> column and a selected drug that no record
  names, the evidence stream raises nothing and consists of the empty-state notice alone.
\<close>

theorem no_evidence_empty_state:
  assumes "index_of ''drug'' (columns papers_df) = Some i"
    and "\<forall>r \<in> set (rows papers_df). \<not> cell_eq (cell_at r i) selected_drug"
  shows "evidence_stream papers_df selected_drug
           = Inr [Info ''No specific literature entries found in the indexed window.'']"
proof -
  have "filter (\<lambda>r. cell_eq (cell_at r i) selected_drug) (rows papers_df) = []"
    using assms(2) by (simp add: filter_empty_conv)
  then show ?thesis
    using drug_papers_rows [OF assms(1), of selected_drug]
    by (simp add: evidence_stream_def df_empty_def)
qed

theorem no_evidence_empty_state_witness:
  "index_of ''drug'' (columns papers_example) = Some 0
   \<and> filter (\<lambda>r. cell_eq (cell_at r 0) (Str ''memantine'')) (rows papers_example) = []
   \<and> evidence_stream papers_example (Str ''memantine'')
       = Inr [Info ''No specific literature entries found in the indexed window.'']"
proof -
  have h: "index_of ''drug'' (columns papers_example) = Some 0"
    by (simp add: papers_example_def)
  have n: "\<forall>r \<in> set (rows papers_example). \<not> cell_eq (cell_at r 0) (Str ''memantine'')"
    by (simp add: papers_example_def cell_at_def cell_eq_def)
  have n': "filter (\<lambda>r. cell_eq (cell_at r 0) (Str ''memantine'')) (rows papers_example) = []"
    using n by (simp add: filter_empty_conv)
  from h n' no_evidence_empty_state [OF h n] show ?thesis
    by (intro conjI)
qed

section \<open>The minimum-confidence filter\<close>

text \<open>
  C9. The slider hands out a threshold between 0.0 and 1.0, and the filter compares it
  with the \<^verbatim>\<open>confidence\<close> column, which holds percentages. For a ranked table whose
  confidence values are all numbers of at least 1, the filtered table is the whole table
  at every setting of the slider.
\<close>

theorem min_confidence_no_effect:
  assumes "index_of ''confidence'' (columns final_df) = Some i"
    and "\<forall>r \<in> set (rows final_df). \<exists>v. cell_at r i = Num v \<and> 1 \<le> v"
    and "0 \<le> min_confidence" and "min_confidence \<le> 1"
  shows "filtered_df final_df min_confidence = Inr final_df"
proof -
  have "\<forall>r \<in> set (rows final_df). \<exists>v. cell_at r i = Num v \<and> min_confidence \<le> v"
    using assms(2,4) by force
  then have "series_ge (map (\<lambda>r. cell_at r i) (rows final_df)) min_confidence
               = Inr (map (\<lambda>_. True) (rows final_df))"
    by (rule series_ge_all)
  then show ?thesis
    using assms(1) by (simp add: filtered_df_def getitem_def boolean_index_def mask_all)
qed

theorem min_confidence_no_effect_witness:
  "index_of ''confidence'' (columns final_example) = Some 5
   \<and> map (\<lambda>r. cell_at r 5) (rows final_example) = [Num 88, Num 12]
   \<and> (0::real) \<le> 1 \<and> (1::real) \<le> 1
   \<and> filtered_df final_example 1 = Inr final_example"
proof -
  have h: "index_of ''confidence'' (columns final_example) = Some 5"
    by (simp add: final_example_def)
  have a: "\<forall>r \<in> set (rows final_example). \<exists>v. cell_at r 5 = Num v \<and> 1 \<le> v"
    by (simp add: final_example_def cell_at_def)
  have lo: "(0::real) \<le> 1" and hi: "(1::real) \<le> 1"
    by simp_all
  have a': "map (\<lambda>r. cell_at r 5) (rows final_example) = [Num 88, Num 12]"
    by (simp add: final_example_def cell_at_def)
  from h a' lo hi min_confidence_no_effect [OF h a lo hi] show ?thesis
    by (intro conjI)
qed

section \<open>The loader\<close>

lemma load_data_body_final_absent:
  "fs FINAL_PATH = None \<Longrightarrow> load_data_body fs = ((DataFrame, DataFrame), [Exists FINAL_PATH])"
  by (simp add: load_data_body_def path_exists_def)

lemma load_data_body_papers_absent:
  "fs FINAL_PATH = Some (Table final_df) \<Longrightarrow> fs PAPERS_PATH = None
     \<Longrightarrow> fst (load_data_body fs) = (final_df, DataFrame)"
  by (simp add: load_data_body_def path_exists_def read_csv_def)

lemma load_data_body_reads_papers:
  "ReadCsv PAPERS_PATH \<in> set (snd (load_data_body fs)) \<Longrightarrow> path_exists fs FINAL_PATH"
  by (auto simp: load_data_body_def split: sum.splits if_splits)

lemma data_status_empty:
  "data_status DataFrame
     = ([Metric ''Candidates'' 0,
         Warning (''Data Pipeline Output Not Found: `'' @ FINAL_PATH @ ''`'')], True)"
  by (simp add: data_status_def df_empty_def DataFrame_def)

text \<open>
  C10, as stated, fails on the cached loader: after a first call made with both files on
  disk, a call made when neither file exists returns the two non-empty tables of the first
  call, not two empty ones.
\<close>

theorem cached_loader_ignores_absent_file:
  "snd (load_data None [FINAL_PATH \<mapsto> Table final_example,
                        PAPERS_PATH \<mapsto> Table papers_example])
     = Some ((final_example, papers_example), [])
   \<and> \<not> path_exists Map.empty FINAL_PATH
   \<and> fst (load_data
            (snd (load_data None [FINAL_PATH \<mapsto> Table final_example,
                                  PAPERS_PATH \<mapsto> Table papers_example]))
            Map.empty)
       = ((final_example, papers_example), [])
   \<and> final_example \<noteq> DataFrame
   \<and> papers_example \<noteq> DataFrame"
proof -
  have ne: "FINAL_PATH \<noteq> PAPERS_PATH"
    by (simp add: FINAL_PATH_def PAPERS_PATH_def)
  have first: "snd (load_data None [FINAL_PATH \<mapsto> Table final_example,
                                    PAPERS_PATH \<mapsto> Table papers_example])
                 = Some ((final_example, papers_example), [])"
    using ne by (simp add: load_data_def load_data_body_def path_exists_def read_csv_def)
  have absent: "\<not> path_exists Map.empty FINAL_PATH"
    by (simp add: path_exists_def)
  have second: "fst (load_data (Some ((final_example, papers_example), [])) Map.empty)
                  = ((final_example, papers_example), [])"
    by (simp add: load_data_def)
  have f: "final_example \<noteq> DataFrame"
    by (simp add: final_example_def DataFrame_def)
  have p: "papers_example \<noteq> DataFrame"
    by (simp add: papers_example_def DataFrame_def)
  from first absent second f p show ?thesis
    by (simp only: simp_thms)
qed

text \<open>
  C10, amended. On a call that finds the cache empty, an absent ranked-candidate file
  makes the loader return two empty tables after a single existence test, whatever else
  is on disk. On every call, the papers file is read only if the call finds the cache
  empty and the ranked-candidate file exists. A call served from the cache returns the
  stored tables and touches no file.
\<close>

theorem papers_read_only_after_final:
  "(\<not> path_exists fs FINAL_PATH \<longrightarrow>
      load_data None fs
        = (((DataFrame, DataFrame), [Exists FINAL_PATH]), Some ((DataFrame, DataFrame), [])))
   \<and> (ReadCsv PAPERS_PATH \<in> set (snd (fst (load_data c fs))) \<longrightarrow>
        c = None \<and> path_exists fs FINAL_PATH)
   \<and> load_data (Some (r, msgs)) fs = ((r, map StError msgs), Some (r, msgs))"
proof -
  have a: "\<not> path_exists fs FINAL_PATH \<Longrightarrow>
             load_data None fs
               = (((DataFrame, DataFrame), [Exists FINAL_PATH]),
                  Some ((DataFrame, DataFrame), []))"
    by (simp add: load_data_def load_data_body_def)
  have b: "ReadCsv PAPERS_PATH \<in> set (snd (fst (load_data c fs))) \<Longrightarrow>
             c = None \<and> path_exists fs FINAL_PATH"
  proof (cases c)
    case None
    assume "ReadCsv PAPERS_PATH \<in> set (snd (fst (load_data c fs)))"
    with None have "ReadCsv PAPERS_PATH \<in> set (snd (load_data_body fs))"
      by (simp add: load_data_def split: prod.splits)
    with None show ?thesis
      by (simp add: load_data_body_reads_papers)
  next
    case (Some e)
    assume "ReadCsv PAPERS_PATH \<in> set (snd (fst (load_data c fs)))"
    with Some show ?thesis
      by (auto simp: load_data_def split: prod.splits)
  qed
  have d: "load_data (Some (r, msgs)) fs = ((r, map StError msgs), Some (r, msgs))"
    by (simp add: load_data_def)
  from a b d show ?thesis
    by blast
qed

theorem papers_read_only_after_final_witness:
  "\<not> path_exists [PAPERS_PATH \<mapsto> Table papers_example] FINAL_PATH
   \<and> path_exists [PAPERS_PATH \<mapsto> Table papers_example] PAPERS_PATH
   \<and> load_data None [PAPERS_PATH \<mapsto> Table papers_example]
       = (((DataFrame, DataFrame), [Exists FINAL_PATH]), Some ((DataFrame, DataFrame), []))
   \<and> ReadCsv PAPERS_PATH
       \<in> set (snd (fst (load_data None [FINAL_PATH \<mapsto> Table final_example,
                                        PAPERS_PATH \<mapsto> Table papers_example])))
   \<and> path_exists [FINAL_PATH \<mapsto> Table final_example,
                   PAPERS_PATH \<mapsto> Table papers_example] FINAL_PATH
   \<and> load_data (Some ((final_example, papers_example), []))
        [PAPERS_PATH \<mapsto> Table papers_example]
       = (((final_example, papers_example), []), Some ((final_example, papers_example), []))"
proof -
  have ne: "FINAL_PATH \<noteq> PAPERS_PATH"
    by (simp add: FINAL_PATH_def PAPERS_PATH_def)
  have a: "\<not> path_exists [PAPERS_PATH \<mapsto> Table papers_example] FINAL_PATH"
    using ne by (simp add: path_exists_def)
  have b: "path_exists [PAPERS_PATH \<mapsto> Table papers_example] PAPERS_PATH"
    by (simp add: path_exists_def)
  have c: "ReadCsv PAPERS_PATH
             \<in> set (snd (fst (load_data None [FINAL_PATH \<mapsto> Table final_example,
                                              PAPERS_PATH \<mapsto> Table papers_example])))"
    using ne by (simp add: load_data_def load_data_body_def path_exists_def read_csv_def)
  note t1 = papers_read_only_after_final
      [of "[PAPERS_PATH \<mapsto> Table papers_example]" None "(final_example, papers_example)" "[]"]
  note t2 = papers_read_only_after_final
      [of "[FINAL_PATH \<mapsto> Table final_example, PAPERS_PATH \<mapsto> Table papers_example]" None]
  have r1: "load_data None [PAPERS_PATH \<mapsto> Table papers_example]
              = (((DataFrame, DataFrame), [Exists FINAL_PATH]),
                 Some ((DataFrame, DataFrame), []))"
    using t1 [THEN conjunct1, THEN mp, OF a] .
  have r2: "path_exists [FINAL_PATH \<mapsto> Table final_example,
                         PAPERS_PATH \<mapsto> Table papers_example] FINAL_PATH"
    using t2 [THEN conjunct2, THEN conjunct1, THEN mp, OF c] by simp
  have r3: "load_data (Some ((final_example, papers_example), []))
              [PAPERS_PATH \<mapsto> Table papers_example]
            = (((final_example, papers_example), []),
               Some ((final_example, papers_example), []))"
    using t1 [THEN conjunct2, THEN conjunct2] by simp
  from a b r1 c r2 r3 show ?thesis
    by (intro conjI)
qed

text \<open>
  C6. The loader itself never raises and returns an empty table for a missing file. With
  the ranked-candidate file present and the papers file absent, the page passes the data
  status check and the evidence stream then raises KeyError on the column-less table,
  whichever drug is selected, instead of showing its empty-state notice. The stored
  result keeps the fault alive on later runs, also once the papers file has appeared.
\<close>

theorem missing_papers_file_faults:
  "load_data None [FINAL_PATH \<mapsto> Table final_example]
     = (((final_example, DataFrame),
         [Exists FINAL_PATH, ReadCsv FINAL_PATH, Exists PAPERS_PATH]),
        Some ((final_example, DataFrame), []))
   \<and> data_status final_example = ([Metric ''Candidates Screened'' 2], False)
   \<and> evidence_stream (snd (fst (fst (load_data None [FINAL_PATH \<mapsto> Table final_example]))))
        (Str ''donepezil'')
       = Inl (KeyError ''drug'')
   \<and> evidence_stream
        (snd (fst (fst (load_data (snd (load_data None [FINAL_PATH \<mapsto> Table final_example]))
                          [FINAL_PATH \<mapsto> Table final_example,
                           PAPERS_PATH \<mapsto> Table papers_example]))))
        (Str ''donepezil'')
       = Inl (KeyError ''drug'')"
proof -
  have ne: "PAPERS_PATH \<noteq> FINAL_PATH"
    by (simp add: FINAL_PATH_def PAPERS_PATH_def)
  have ld: "load_data None [FINAL_PATH \<mapsto> Table final_example]
              = (((final_example, DataFrame),
                  [Exists FINAL_PATH, ReadCsv FINAL_PATH, Exists PAPERS_PATH]),
                 Some ((final_example, DataFrame), []))"
    using ne by (simp add: load_data_def load_data_body_def path_exists_def read_csv_def)
  have hit: "load_data (Some ((final_example, DataFrame), []))
               [FINAL_PATH \<mapsto> Table final_example, PAPERS_PATH \<mapsto> Table papers_example]
             = (((final_example, DataFrame), []), Some ((final_example, DataFrame), []))"
    by (simp add: load_data_def)
  have ds: "data_status final_example = ([Metric ''Candidates Screened'' 2], False)"
    by (simp add: data_status_def df_empty_def final_example_def)
  have ev: "evidence_stream DataFrame (Str ''donepezil'') = Inl (KeyError ''drug'')"
    by (simp add: evidence_stream_def drug_papers_def getitem_def DataFrame_def)
  show ?thesis
    by (simp add: ld hit ds ev)
qed

section \<open>Phase 1\<close>

lemmas main_eval = main_def drop_columns_def metadata_columns_def getitem_def
  extract_candidates_def select_columns_def boolean_index_def series_eq_def
  cell_at_def cell_eq_def label_code_def sklearn_example_def Let_def

lemma main_without_metadata:
  "main sk compounds_no_metadata out = (Inl (KeyError ''IUPAC_name''), out)"
  by (simp add: main_def drop_columns_def metadata_columns_def compounds_no_metadata_def)




text \<open>
  C4. A run of phase 1 that ends in an error leaves the output directory as it found it:
  neither the model artifact nor the candidate CSV has been written. Every step that can
  raise on the data comes before the first write, and the dropping of the metadata columns
  has by then established that step 7 finds its columns.
\<close>

theorem no_output_on_error:
  assumes "main sk df_ext out = (Inl e, out')"
  shows "out' = out"
proof (cases "drop_columns df_ext metadata_columns")
  case (Inl e0)
  then show ?thesis using assms by (simp add: main_def)
next
  case (Inr X)
  then obtain d where d: "extract_candidates df_ext = Inr d"
    using extract_after_drop by blast
  show ?thesis
    using assms Inr d
    by (auto simp: main_def Let_def split: sum.splits prod.splits)
qed

theorem no_output_on_error_witness:
  "main sklearn_example compounds_bad_label [MODEL_PATH \<mapsto> Pickle ()]
     = (Inl (LibraryError ''Input y contains NaN.''), [MODEL_PATH \<mapsto> Pickle ()])"
proof -
  have f: "fst (main sklearn_example compounds_bad_label [MODEL_PATH \<mapsto> Pickle ()])
             = Inl (LibraryError ''Input y contains NaN.'')"
    by (simp add: main_eval compounds_bad_label_def)
  then have h: "main sklearn_example compounds_bad_label [MODEL_PATH \<mapsto> Pickle ()]
             = (Inl (LibraryError ''Input y contains NaN.''),
                snd (main sklearn_example compounds_bad_label [MODEL_PATH \<mapsto> Pickle ()]))"
    by (simp add: prod_eq_iff)
  have "snd (main sklearn_example compounds_bad_label [MODEL_PATH \<mapsto> Pickle ()])
          = [MODEL_PATH \<mapsto> Pickle ()]"
    using h by (rule no_output_on_error)
  with f show ?thesis
    by (simp add: prod_eq_iff)
qed

section \<open>What phase 1 leaves to the library\<close>

text \<open>
  The run has no label check of its own: a label outside the two recognised values is
  coded as the missing value and handed to the split. On the table with the label
  \<^verbatim>\<open>unknown\<close> the run fails with the library that refuses a missing value in the
  stratification vector, and completes with the one that does not, the row then being
  absent from the candidate list.
\<close>

lemma label_code_unrecognised:
  "x \<noteq> Str ''BBB+'' \<Longrightarrow> x \<noteq> Str ''BBB-'' \<Longrightarrow> label_code x = NaN"
  by (simp add: label_code_def)

lemma bad_label_lenient_library:
  "main sklearn_lenient compounds_bad_label Map.empty
     = (Inr (),
        [MODEL_PATH \<mapsto> Pickle (),
         CSV_PATH \<mapsto> CsvFile \<lparr>columns = [''compound_name'', ''SMILES''],
                                rows = [[Str ''caffeine'', Str ''CN1C'']]\<rparr>])"
  by (simp add: main_eval sklearn_lenient_def compounds_bad_label_def)

text \<open>
  The candidate CSV of a completed run is determined by the input table alone: neither
  the library (and so neither the split nor the trained model) nor the earlier content of
  the output directory has a part in it.
\<close>

lemma candidate_csv_depends_on_table_only:
  assumes "main sk df_ext out = (Inr (), out')"
    and "main sk2 df_ext out2 = (Inr (), out2')"
  shows "out' CSV_PATH = out2' CSV_PATH"
  using assms
  by (auto simp: main_def Let_def split: sum.splits prod.splits)

end
